theory Spec2Isabelle
  imports Complex_Main "HOL-Library.Multiset"
begin

section \<open>Shared data model\<close>

text \<open>
  Identifiers arrive as JSON primitives and are compared with \<^verbatim>\<open>===\<close>: a number
  and a string are never equal, two numbers or two strings are equal when they
  are the same value.
\<close>

datatype ident = IdNum int | IdStr string

text \<open>
  A contact as the components read it. Fields that the backend may leave out are
  options (\<open>None\<close> is \<^verbatim>\<open>undefined\<close>/\<^verbatim>\<open>null\<close>). The score is a finite
  double; finite doubles are rationals and the sign of a double difference is the
  sign of the exact difference, so the score is a \<open>rat\<close>. \<open>email_validated\<close> is
  the truthiness of the field.
\<close>

record contact =
  id' :: ident
  first_name :: "string option"
  last_name :: "string option"
  email :: "string option"
  company_name :: "string option"
  company_domain :: "string option"
  company_trigger :: "string option"
  company_industry :: "string option"
  decision_maker_score :: "rat option"
  email_validated :: bool
  email_validation_result :: "string option"

record company =
  name :: "string option"
  domain :: "string option"
  trigger_type :: "string option"
  industry :: "string option"
  top_contacts :: "contact list option"

text \<open>The fields shared by a generated email and an outgoing item.\<close>

record email_core =
  contact_id :: ident
  subject :: string
  body :: string

record generated_email = email_core +
  contact_name :: string
  personalization_score :: rat

record outgoing = email_core +
  to_email :: "string option"

subsection \<open>Effects: toasts and network requests\<close>

datatype variant = Default_variant | Destructive

record toast =
  title :: string
  description :: "string option"
  variant :: variant

text \<open>
  The numbers that the limit field can hold: an integer that a double represents
  exactly, or an infinity (\<^verbatim>\<open>NaN\<close> is never stored). \<^verbatim>\<open>JSON.stringify\<close> writes
  an infinity as \<^verbatim>\<open>null\<close>.
\<close>

datatype js_number = Num int | PosInfinity | NegInfinity

text \<open>
  The requests that the handlers below issue with \<^verbatim>\<open>fetch\<close>, each with the
  part of its body that varies. \<open>PostFilterContacts\<close> always carries \<^verbatim>\<open>min_decision_score: 0.5\<close> and
  \<^verbatim>\<open>email_validation_results: ['valid', 'risky']\<close>; \<open>GetCompanies\<close> is
  \<^verbatim>\<open>/api/leads/companies?limit=100\<close>.
\<close>

datatype request =
    PostDiscover "string list" js_number
  | GetCompanies
  | PostValidateContacts "ident list"
  | PostFilterContacts
  | PostGenerateEmails "ident list" string
  | PostSendEmails "outgoing list" bool

text \<open>
  What \<^verbatim>\<open>await response.json()\<close> gives the handler: a body whose \<^verbatim>\<open>success\<close>
  is truthy (with its payload and \<^verbatim>\<open>message\<close>), a body whose \<^verbatim>\<open>success\<close> is
  falsy (with its \<^verbatim>\<open>error\<close>), or an exception (the fetch rejected, or the body
  was not JSON), which lands in the \<^verbatim>\<open>catch\<close> block.
\<close>

datatype 'a response =
    Succeeded 'a "string option"
  | Failed "string option"
  | Threw

record effects =
  toasts :: "toast list"
  requests :: "request list"

text \<open>\<^verbatim>\<open>x || d\<close> on an optional string: an absent or empty \<open>x\<close> is falsy.\<close>

definition or_default :: "string option \<Rightarrow> string \<Rightarrow> string" where
  "or_default x d = (case x of None \<Rightarrow> d | Some e \<Rightarrow> if e = [] then d else e)"

definition error_toast :: "string \<Rightarrow> toast" where
  "error_toast d = \<lparr>title = ''Error'', description = Some d, variant = Destructive\<rparr>"

definition success_toast :: "string option \<Rightarrow> toast" where
  "success_toast d = \<lparr>title = ''Success'', description = d, variant = Default_variant\<rparr>"

section \<open>LeadDiscovery\<close>

record ld_state = effects +
  triggerTypes :: "string list"
  limitPerType :: js_number
  isDiscovering :: bool
  discoveredCompanies :: "company list"

definition ld_init :: ld_state where
  "ld_init = \<lparr>toasts = [], requests = [],
     triggerTypes = [''hiring'', ''funding'', ''outdated_tech''],
     limitPerType = Num 20, isDiscovering = False, discoveredCompanies = []\<rparr>"

definition handleTriggerChange :: "string \<Rightarrow> bool \<Rightarrow> ld_state \<Rightarrow> ld_state" where
  "handleTriggerChange triggerId checked s =
     (if checked then s\<lparr>triggerTypes := triggerTypes s @ [triggerId]\<rparr>
      else s\<lparr>triggerTypes := filter (\<lambda>t. t \<noteq> triggerId) (triggerTypes s)\<rparr>)"

subsection \<open>The limit input\<close>

text \<open>
  A string is the UTF-8 encoding of the source's string, one \<open>char\<close> per byte.
  \<open>space_len\<close> is the number of bytes of the white space character that the
  bytes start with, or 0: the white space of the language is tab, line feed,
  vertical tab, form feed, carriage return, space, U+00A0, U+1680, U+2000 to
  U+200A, U+2028, U+2029, U+202F, U+205F, U+3000 and U+FEFF.
\<close>

definition space_len :: "nat list \<Rightarrow> nat" where
  "space_len bs =
     (case bs of
        [] \<Rightarrow> 0
      | a # r \<Rightarrow>
          if a \<in> {9, 10, 11, 12, 13, 32} then 1
          else (case r of
                  [] \<Rightarrow> 0
                | b # r' \<Rightarrow>
                    if a = 194 \<and> b = 160 then 2
                    else (case r' of
                            [] \<Rightarrow> 0
                          | c # r'' \<Rightarrow>
                              if (a = 225 \<and> b = 154 \<and> c = 128)
                                 \<or> (a = 226 \<and> b = 128 \<and> 128 \<le> c \<and> c \<le> 138)
                                 \<or> (a = 226 \<and> b = 128 \<and> c \<in> {168, 169, 175})
                                 \<or> (a = 226 \<and> b = 129 \<and> c = 159)
                                 \<or> (a = 227 \<and> b = 128 \<and> c = 128)
                                 \<or> (a = 239 \<and> b = 187 \<and> c = 191)
                              then 3 else 0)))"

function skip_space :: "string \<Rightarrow> string" where
  "skip_space v =
     (if space_len (map of_char v) = 0 then v
      else skip_space (drop (space_len (map of_char v)) v))"
  by pat_completeness auto

termination
proof (relation "measure length")
  show "wf (measure length)"
    by simp
next
  fix v :: string
  assume a: "space_len (map of_char v) \<noteq> 0"
  have "v \<noteq> []"
    using a by (cases v) (simp_all add: space_len_def)
  with a show "(drop (space_len (map of_char v)) v, v) \<in> measure length"
    by simp
qed

declare skip_space.simps [simp del]

definition digit_of :: "char \<Rightarrow> nat option" where
  "digit_of c =
     (let k = (of_char c :: nat) in
      if 48 \<le> k \<and> k \<le> 57 then Some (k - 48)
      else if 97 \<le> k \<and> k \<le> 102 then Some (k - 87)
      else if 65 \<le> k \<and> k \<le> 70 then Some (k - 55)
      else None)"

fun digits :: "nat \<Rightarrow> nat option \<Rightarrow> string \<Rightarrow> nat option" where
  "digits radix acc [] = acc"
| "digits radix acc (c # cs) =
     (case digit_of c of
        None \<Rightarrow> acc
      | Some d \<Rightarrow>
          if d < radix
          then digits radix (Some ((case acc of None \<Rightarrow> 0 | Some a \<Rightarrow> a) * radix + d)) cs
          else acc)"

definition strip_sign :: "string \<Rightarrow> bool \<times> string" where
  "strip_sign t =
     (case t of
        [] \<Rightarrow> (False, [])
      | c # r \<Rightarrow>
          if c = CHR ''-'' then (True, r)
          else if c = CHR ''+'' then (False, r)
          else (False, t))"

definition strip_radix :: "string \<Rightarrow> nat \<times> string" where
  "strip_radix u =
     (case u of
        a # b # r \<Rightarrow>
          if a = CHR ''0'' \<and> (b = CHR ''x'' \<or> b = CHR ''X'') then (16, r) else (10, u)
      | _ \<Rightarrow> (10, u))"

text \<open>
  The double nearest to a natural number, ties to the even mantissa; \<open>None\<close> is
  the overflow to infinity. A number below \<open>2 ^ 53\<close> is its own double; a
  larger one keeps its 53 leading bits, rounded on the rest.
\<close>

function bit_len :: "nat \<Rightarrow> nat" where
  "bit_len n = (if n = 0 then 0 else Suc (bit_len (n div 2)))"
  by pat_completeness auto

termination
  by (relation "measure id") auto

declare bit_len.simps [simp del]

definition to_double :: "nat \<Rightarrow> nat option" where
  "to_double n =
     (if n < 2 ^ 53 then Some n
      else
        let e = bit_len n - 53;
            q = n div 2 ^ e;
            r = n mod 2 ^ e;
            half = 2 ^ (e - 1);
            q' = (if half < r \<or> (r = half \<and> odd q) then q + 1 else q);
            v = q' * 2 ^ e
        in if 2 ^ 1024 \<le> v then None else Some v)"

text \<open>
  \<^verbatim>\<open>parseInt\<close> with no radix: leading white space is skipped, one sign is read,
  a \<^verbatim>\<open>0x\<close> prefix switches to base 16, and the longest prefix of digits is the
  value, as a double; no digit at all is \<^verbatim>\<open>NaN\<close> (\<open>None\<close>). (Past the 20th
  significant decimal digit the language lets an implementation read zeros; here
  every digit is read.)
\<close>

definition parseInt :: "string \<Rightarrow> js_number option" where
  "parseInt v =
     (let (neg, u) = strip_sign (skip_space v);
          (radix, w) = strip_radix u
      in case digits radix None w of
           None \<Rightarrow> None
         | Some n \<Rightarrow>
             (case to_double n of
                None \<Rightarrow> Some (if neg then NegInfinity else PosInfinity)
              | Some d \<Rightarrow> Some (Num (if neg then - int d else int d))))"

text \<open>
  The input's handler, \<^verbatim>\<open>setLimitPerType(parseInt(e.target.value) || 20)\<close>:
  \<^verbatim>\<open>NaN\<close> and \<^verbatim>\<open>0\<close> (of either sign) are falsy. The \<^verbatim>\<open>min\<close> and \<^verbatim>\<open>max\<close> attributes of the
  input are not read by the handler.
\<close>

definition limit_min :: int where "limit_min = 1"
definition limit_max :: int where "limit_max = 100"

definition onChange_limit :: "string \<Rightarrow> ld_state \<Rightarrow> ld_state" where
  "onChange_limit v s =
     s\<lparr>limitPerType :=
         (case parseInt v of None \<Rightarrow> Num 20 | Some n \<Rightarrow> if n = Num 0 then Num 20 else n)\<rparr>"

subsection \<open>discoverLeads\<close>

text \<open>
  One call of \<^verbatim>\<open>discoverLeads\<close>, from the click to the end of its \<^verbatim>\<open>finally\<close>
  block, with \<open>data\<close> the answer to the one request it may issue.
\<close>

definition discoverLeads :: "(company list option) response \<Rightarrow> ld_state \<Rightarrow> ld_state" where
  "discoverLeads data s =
     (if length (triggerTypes s) = 0 then
        s\<lparr>toasts := toasts s @ [error_toast ''Please select at least one trigger type'']\<rparr>
      else
        let s1 = s\<lparr>isDiscovering := True\<rparr>;
            s2 = s1\<lparr>requests := requests s1 @ [PostDiscover (triggerTypes s) (limitPerType s)]\<rparr>;
            s3 = (case data of
                    Succeeded companies message \<Rightarrow>
                      s2\<lparr>discoveredCompanies := (case companies of None \<Rightarrow> [] | Some cs \<Rightarrow> cs),
                         toasts := toasts s2 @ [success_toast message]\<rparr>
                  | Failed err \<Rightarrow>
                      s2\<lparr>toasts := toasts s2 @ [error_toast (or_default err ''Failed to discover leads'')]\<rparr>
                  | Threw \<Rightarrow>
                      s2\<lparr>toasts := toasts s2 @ [error_toast ''Network error occurred'']\<rparr>)
        in s3\<lparr>isDiscovering := False\<rparr>)"

text \<open>The state after the user has unchecked the three trigger types.\<close>

definition ld_none :: ld_state where
  "ld_none =
     handleTriggerChange ''outdated_tech'' False
       (handleTriggerChange ''funding'' False
         (handleTriggerChange ''hiring'' False ld_init))"

section \<open>EmailCampaigns\<close>

record ec_state = effects +
  contacts_ec :: "contact list"
  selectedContacts_ec :: "ident list"
  generatedEmails :: "generated_email list"
  selectedTemplate :: string
  isGenerating :: bool
  isSending :: bool
  testMode :: bool

definition ec_init :: ec_state where
  "ec_init = \<lparr>toasts = [], requests = [], contacts_ec = [], selectedContacts_ec = [],
     generatedEmails = [], selectedTemplate = ''hiring'', isGenerating = False,
     isSending = False, testMode = True\<rparr>"

text \<open>
  \<^verbatim>\<open>fetchContacts\<close> in two halves: the call issues its request and returns a
  pending promise; the answer is handled when it arrives. A body without
  \<^verbatim>\<open>success\<close>, a response that is not \<^verbatim>\<open>ok\<close> and an exception change nothing
  (the exception is only logged to the console).
\<close>

definition fetchContacts_ec_request :: "ec_state \<Rightarrow> ec_state" where
  "fetchContacts_ec_request s = s\<lparr>requests := requests s @ [PostFilterContacts]\<rparr>"

definition fetchContacts_ec_answer :: "(contact list option) response \<Rightarrow> ec_state \<Rightarrow> ec_state" where
  "fetchContacts_ec_answer data s =
     (case data of
        Succeeded cs message \<Rightarrow> s\<lparr>contacts_ec := (case cs of None \<Rightarrow> [] | Some xs \<Rightarrow> xs)\<rparr>
      | Failed err \<Rightarrow> s
      | Threw \<Rightarrow> s)"

definition handleSelectContact_ec :: "ident \<Rightarrow> bool \<Rightarrow> ec_state \<Rightarrow> ec_state" where
  "handleSelectContact_ec contactId checked s =
     (if checked then s\<lparr>selectedContacts_ec := selectedContacts_ec s @ [contactId]\<rparr>
      else s\<lparr>selectedContacts_ec := filter (\<lambda>i. i \<noteq> contactId) (selectedContacts_ec s)\<rparr>)"

definition handleSelectAll_ec :: "bool \<Rightarrow> ec_state \<Rightarrow> ec_state" where
  "handleSelectAll_ec checked s =
     (if checked then s\<lparr>selectedContacts_ec := map id' (contacts_ec s)\<rparr>
      else s\<lparr>selectedContacts_ec := []\<rparr>)"

text \<open>
  What the handler reads of a generation answer: the emails, and
  \<^verbatim>\<open>total_generated\<close> as the template literal of the toast renders it (its
  only use).
\<close>

record generate_data =
  generated_emails :: "generated_email list option"
  total_generated :: string

text \<open>
  One call of \<^verbatim>\<open>generateEmails\<close>, from the click to the end of its
  \<^verbatim>\<open>finally\<close> block, with \<open>data\<close> the answer to its request. The success toast
  is \<^verbatim>\<open>`Generated ${data.total_generated} personalized emails`\<close>; the message of
  the answer is not read.
\<close>

definition generateEmails :: "generate_data response \<Rightarrow> ec_state \<Rightarrow> ec_state" where
  "generateEmails data s =
     (if length (selectedContacts_ec s) = 0 then
        s\<lparr>toasts := toasts s @ [error_toast ''Please select contacts to generate emails for'']\<rparr>
      else
        let s1 = s\<lparr>isGenerating := True\<rparr>;
            s2 = s1\<lparr>requests := requests s1 @
                   [PostGenerateEmails (selectedContacts_ec s) (selectedTemplate s)]\<rparr>;
            s3 = (case data of
                    Succeeded d message \<Rightarrow>
                      s2\<lparr>generatedEmails :=
                           (case generated_emails d of None \<Rightarrow> [] | Some xs \<Rightarrow> xs),
                         toasts := toasts s2 @
                           [success_toast
                              (Some (''Generated '' @ total_generated d @ '' personalized emails''))]\<rparr>
                  | Failed err \<Rightarrow>
                      s2\<lparr>toasts := toasts s2 @ [error_toast (or_default err ''Failed to generate emails'')]\<rparr>
                  | Threw \<Rightarrow>
                      s2\<lparr>toasts := toasts s2 @ [error_toast ''Network error occurred'']\<rparr>)
        in s3\<lparr>isGenerating := False\<rparr>)"

text \<open>
  The items of the request: one per generated email, in order. The to-address is
  \<^verbatim>\<open>contacts.find(c => c.id === email.contact_id)?.email\<close>: the email of the
  first contact with that id, and \<^verbatim>\<open>undefined\<close> when there is none (the key is
  then absent from the JSON body).
\<close>

definition emailsToSend :: "contact list \<Rightarrow> generated_email list \<Rightarrow> outgoing list" where
  "emailsToSend cs gs =
     map (\<lambda>e. \<lparr>contact_id = contact_id e, subject = subject e, body = body e,
               to_email = (case find (\<lambda>c. id' c = contact_id e) cs of
                             None \<Rightarrow> None
                           | Some c \<Rightarrow> email c)\<rparr>) gs"

text \<open>
  One call of \<^verbatim>\<open>sendEmails\<close>, from the click to the end of its \<^verbatim>\<open>finally\<close>
  block, with \<open>data\<close> the answer to the send request. \<^verbatim>\<open>testMode\<close>,
  \<^verbatim>\<open>contacts\<close> and \<^verbatim>\<open>generatedEmails\<close> are the values the call started with.
\<close>

definition sendEmails :: "unit response \<Rightarrow> ec_state \<Rightarrow> ec_state" where
  "sendEmails data s =
     (if length (generatedEmails s) = 0 then
        s\<lparr>toasts := toasts s @ [error_toast ''Please generate emails first'']\<rparr>
      else
        let s1 = s\<lparr>isSending := True\<rparr>;
            s2 = s1\<lparr>requests := requests s1 @
                   [PostSendEmails (emailsToSend (contacts_ec s) (generatedEmails s)) (testMode s)]\<rparr>;
            s3 = (case data of
                    Succeeded u message \<Rightarrow>
                      let s4 = s2\<lparr>toasts := toasts s2 @
                                 [success_toast (if testMode s then Some ''Test completed successfully''
                                                 else message)]\<rparr>
                      in if \<not> testMode s then
                           (fetchContacts_ec_request s4)\<lparr>generatedEmails := [], selectedContacts_ec := []\<rparr>
                         else s4
                  | Failed err \<Rightarrow>
                      s2\<lparr>toasts := toasts s2 @ [error_toast (or_default err ''Failed to send emails'')]\<rparr>
                  | Threw \<Rightarrow>
                      s2\<lparr>toasts := toasts s2 @ [error_toast ''Network error occurred'']\<rparr>)
        in s3\<lparr>isSending := False\<rparr>)"

section \<open>ContactManagement\<close>

subsection \<open>State\<close>

text \<open>
  \<^verbatim>\<open>filterContacts\<close> sorts an array in place that may be the very array held in
  \<^verbatim>\<open>contacts\<close>, so the two contact arrays live in a store: \<open>heap\<close> maps an
  address to the array's elements, \<open>fresh\<close> is the next unused address, and
  \<open>contacts\<close> and \<open>filteredContacts\<close> hold addresses.
\<close>

type_synonym ref = nat

record cm_state = effects +
  heap :: "ref \<Rightarrow> contact list"
  fresh :: ref
  contacts :: ref
  filteredContacts :: ref
  selectedContacts :: "ident list"
  loading :: bool
  validating :: bool
  searchTerm :: string
  triggerFilter :: string
  validationFilter :: string

text \<open>The two \<^verbatim>\<open>useState([])\<close> arrays are distinct objects.\<close>

definition cm_init :: cm_state where
  "cm_init = \<lparr>toasts = [], requests = [], heap = (\<lambda>r. []), fresh = 2, contacts = 0,
     filteredContacts = 1, selectedContacts = [], loading = True, validating = False,
     searchTerm = [], triggerFilter = ''all'', validationFilter = ''all''\<rparr>"

definition new_array :: "contact list \<Rightarrow> cm_state \<Rightarrow> ref \<times> cm_state" where
  "new_array xs s = (fresh s, s\<lparr>heap := (heap s)(fresh s := xs), fresh := fresh s + 1\<rparr>)"

text \<open>\<^verbatim>\<open>Array.prototype.filter\<close> returns a new array and leaves its receiver alone.\<close>

definition array_filter :: "(contact \<Rightarrow> bool) \<Rightarrow> ref \<Rightarrow> cm_state \<Rightarrow> ref \<times> cm_state" where
  "array_filter p r s = new_array (filter p (heap s r)) s"

text \<open>The contacts on display, and their ids.\<close>

definition visible :: "cm_state \<Rightarrow> contact list" where
  "visible s = heap s (filteredContacts s)"

definition visibleIds :: "cm_state \<Rightarrow> ident list" where
  "visibleIds s = map id' (visible s)"

subsection \<open>Strings\<close>

text \<open>
  \<^verbatim>\<open>String.prototype.toLowerCase\<close> belongs to the runtime, not to the
  repository: it is a parameter, \<open>toLowerCase\<close>, of every definition that
  searches, and what is proved of them holds for every such function.
  \<^verbatim>\<open>includes\<close> is modelled in full: the second string occurs in the first.
\<close>

fun includes_str :: "string \<Rightarrow> string \<Rightarrow> bool" where
  "includes_str [] t = (t = [])"
| "includes_str (c # cs) t = (take (length t) (c # cs) = t \<or> includes_str cs t)"

text \<open>\<^verbatim>\<open>field?.toLowerCase().includes(term.toLowerCase())\<close>, as a truth value.\<close>

definition field_includes :: "(string \<Rightarrow> string) \<Rightarrow> string option \<Rightarrow> string \<Rightarrow> bool" where
  "field_includes toLowerCase field term =
     (case field of
        None \<Rightarrow> False
      | Some v \<Rightarrow> includes_str (toLowerCase v) (toLowerCase term))"

definition matches_search :: "(string \<Rightarrow> string) \<Rightarrow> string \<Rightarrow> contact \<Rightarrow> bool" where
  "matches_search toLowerCase term c =
     (field_includes toLowerCase (first_name c) term
      \<or> field_includes toLowerCase (last_name c) term
      \<or> field_includes toLowerCase (email c) term
      \<or> field_includes toLowerCase (company_name c) term)"

text \<open>
  The builtin on ASCII strings, for the example states below, whose strings are
  ASCII: the letters A to Z go to a to z and every other character stays.
\<close>

definition lower_ascii :: "string \<Rightarrow> string" where
  "lower_ascii v =
     map (\<lambda>c. let k = (of_char c :: nat) in if 65 \<le> k \<and> k \<le> 90 then char_of (k + 32) else c) v"

subsection \<open>Sorting\<close>

text \<open>
  \<^verbatim>\<open>contact.decision_maker_score || 0\<close>: a missing score is 0 (and a score of 0,
  falsy as well, is 0).
\<close>

definition score_or_0 :: "contact \<Rightarrow> rat" where
  "score_or_0 c = (case decision_maker_score c of None \<Rightarrow> 0 | Some x \<Rightarrow> x)"

text \<open>The comparator handed to \<^verbatim>\<open>sort\<close>.\<close>

definition compareScore :: "contact \<Rightarrow> contact \<Rightarrow> rat" where
  "compareScore a b = score_or_0 b - score_or_0 a"

text \<open>
  \<^verbatim>\<open>Array.prototype.sort\<close> with a comparator: the language requires the sort to
  be stable and, for a consistent comparator, to put \<open>a\<close> before \<open>b\<close> whenever
  the comparator is negative on them. A stable insertion sort is the model: an
  element goes before the first one it does not have to follow.
\<close>

fun insert_by :: "('a \<Rightarrow> 'a \<Rightarrow> rat) \<Rightarrow> 'a \<Rightarrow> 'a list \<Rightarrow> 'a list" where
  "insert_by cmp x [] = [x]"
| "insert_by cmp x (y # ys) =
     (if cmp x y \<le> 0 then x # y # ys else y # insert_by cmp x ys)"

fun array_sort :: "('a \<Rightarrow> 'a \<Rightarrow> rat) \<Rightarrow> 'a list \<Rightarrow> 'a list" where
  "array_sort cmp [] = []"
| "array_sort cmp (x # xs) = insert_by cmp x (array_sort cmp xs)"

subsection \<open>filterContacts\<close>

text \<open>
  \<open>filtered\<close> starts as the address in \<open>contacts\<close>; each active criterion
  replaces it by the address of a new array; the array it ends on is sorted in
  place and becomes \<open>filteredContacts\<close>.
\<close>

definition filterContacts :: "(string \<Rightarrow> string) \<Rightarrow> cm_state \<Rightarrow> cm_state" where
  "filterContacts toLowerCase s0 =
     (let filtered = contacts s0;
          (filtered, s) =
            (if searchTerm s0 \<noteq> [] then
               array_filter (matches_search toLowerCase (searchTerm s0)) filtered s0
             else (filtered, s0));
          (filtered, s) =
            (if triggerFilter s0 \<noteq> ''all'' then
               array_filter (\<lambda>contact. company_trigger contact = Some (triggerFilter s0)) filtered s
             else (filtered, s));
          (filtered, s) =
            (if validationFilter s0 \<noteq> ''all'' then
               if validationFilter s0 = ''validated'' then
                 array_filter (\<lambda>contact. email_validated contact) filtered s
               else if validationFilter s0 = ''unvalidated'' then
                 array_filter (\<lambda>contact. \<not> email_validated contact) filtered s
               else
                 array_filter
                   (\<lambda>contact. email_validation_result contact = Some (validationFilter s0)) filtered s
             else (filtered, s));
          s = s\<lparr>heap := (heap s)(filtered := array_sort compareScore (heap s filtered))\<rparr>
      in s\<lparr>filteredContacts := filtered\<rparr>)"

text \<open>
  What the three criteria keep, read off the predicates above: the contacts that
  pass every active criterion.
\<close>

definition passes_search :: "(string \<Rightarrow> string) \<Rightarrow> cm_state \<Rightarrow> contact \<Rightarrow> bool" where
  "passes_search toLowerCase s c =
     (if searchTerm s \<noteq> [] then matches_search toLowerCase (searchTerm s) c else True)"

definition passes_trigger :: "cm_state \<Rightarrow> contact \<Rightarrow> bool" where
  "passes_trigger s c =
     (if triggerFilter s \<noteq> ''all'' then company_trigger c = Some (triggerFilter s) else True)"

definition passes_validation :: "cm_state \<Rightarrow> contact \<Rightarrow> bool" where
  "passes_validation s c =
     (if validationFilter s \<noteq> ''all'' then
        if validationFilter s = ''validated'' then email_validated c
        else if validationFilter s = ''unvalidated'' then \<not> email_validated c
        else email_validation_result c = Some (validationFilter s)
      else True)"

definition passes :: "(string \<Rightarrow> string) \<Rightarrow> cm_state \<Rightarrow> contact \<Rightarrow> bool" where
  "passes toLowerCase s c =
     (passes_search toLowerCase s c \<and> passes_trigger s c \<and> passes_validation s c)"

subsection \<open>Fetching and validating\<close>

text \<open>The contacts of every company, each with the four fields of its company.\<close>

definition flatten :: "company list \<Rightarrow> contact list" where
  "flatten companies =
     concat (map (\<lambda>company.
       case top_contacts company of
         None \<Rightarrow> []
       | Some cs \<Rightarrow>
           map (\<lambda>contact. contact\<lparr>company_name := name company,
                                   company_domain := domain company,
                                   company_trigger := trigger_type company,
                                   company_industry := industry company\<rparr>) cs) companies)"

text \<open>
  \<^verbatim>\<open>fetchContacts\<close> in two halves, as above. A body with \<^verbatim>\<open>success\<close> and no
  \<^verbatim>\<open>companies\<close> throws inside the \<^verbatim>\<open>try\<close> block and is handled like any other
  exception.
\<close>

definition fetchContacts_request :: "cm_state \<Rightarrow> cm_state" where
  "fetchContacts_request s = s\<lparr>requests := requests s @ [GetCompanies]\<rparr>"

definition fetchContacts_answer :: "(company list option) response \<Rightarrow> cm_state \<Rightarrow> cm_state" where
  "fetchContacts_answer data s =
     (let s1 = (case data of
                  Succeeded (Some companies) message \<Rightarrow>
                    (let (allContacts, s2) = new_array (flatten companies) s
                     in s2\<lparr>contacts := allContacts\<rparr>)
                | Succeeded None message \<Rightarrow>
                    s\<lparr>toasts := toasts s @ [error_toast ''Failed to fetch contacts'']\<rparr>
                | Failed err \<Rightarrow> s
                | Threw \<Rightarrow> s\<lparr>toasts := toasts s @ [error_toast ''Failed to fetch contacts'']\<rparr>)
      in s1\<lparr>loading := False\<rparr>)"

text \<open>
  One call of \<^verbatim>\<open>validateSelectedContacts\<close>, from the click to the end of its
  \<^verbatim>\<open>finally\<close> block, with \<open>data\<close> the answer to the validation request.
\<close>

definition validateSelectedContacts :: "unit response \<Rightarrow> cm_state \<Rightarrow> cm_state" where
  "validateSelectedContacts data s =
     (if length (selectedContacts s) = 0 then
        s\<lparr>toasts := toasts s @ [error_toast ''Please select contacts to validate'']\<rparr>
      else
        let s1 = s\<lparr>validating := True\<rparr>;
            s2 = s1\<lparr>requests := requests s1 @ [PostValidateContacts (selectedContacts s)]\<rparr>;
            s3 = (case data of
                    Succeeded u message \<Rightarrow>
                      (fetchContacts_request (s2\<lparr>toasts := toasts s2 @ [success_toast message]\<rparr>))
                        \<lparr>selectedContacts := []\<rparr>
                  | Failed err \<Rightarrow>
                      s2\<lparr>toasts := toasts s2 @ [error_toast (or_default err ''Failed to validate contacts'')]\<rparr>
                  | Threw \<Rightarrow>
                      s2\<lparr>toasts := toasts s2 @ [error_toast ''Network error occurred'']\<rparr>)
        in s3\<lparr>validating := False\<rparr>)"

subsection \<open>Selection\<close>

definition handleSelectContact :: "ident \<Rightarrow> bool \<Rightarrow> cm_state \<Rightarrow> cm_state" where
  "handleSelectContact contactId checked s =
     (if checked then s\<lparr>selectedContacts := selectedContacts s @ [contactId]\<rparr>
      else s\<lparr>selectedContacts := filter (\<lambda>i. i \<noteq> contactId) (selectedContacts s)\<rparr>)"

definition handleSelectAll :: "bool \<Rightarrow> cm_state \<Rightarrow> cm_state" where
  "handleSelectAll checked s =
     (if checked then s\<lparr>selectedContacts := map id' (heap s (filteredContacts s))\<rparr>
      else s\<lparr>selectedContacts := []\<rparr>)"

text \<open>The \<^verbatim>\<open>checked\<close> property of the select-all checkbox, computed at each render.\<close>

definition select_all_checked :: "cm_state \<Rightarrow> bool" where
  "select_all_checked s =
     (length (selectedContacts s) = length (heap s (filteredContacts s))
      \<and> length (heap s (filteredContacts s)) > 0)"

subsection \<open>Events and reachable states\<close>

text \<open>
  What can happen to a mounted component: the answer to a pending fetch arrives,
  the user edits a criterion, clears the criteria, ticks a contact or the
  select-all box, or runs a validation. The effect on
  \<^verbatim>\<open>[contacts, searchTerm, triggerFilter, validationFilter]\<close> runs
  \<^verbatim>\<open>filterContacts\<close> after an event that changed one of the four.
\<close>

datatype cm_event =
    FetchAnswer "(company list option) response"
  | SetSearchTerm string
  | SetTriggerFilter string
  | SetValidationFilter string
  | ClearFilters
  | SelectContact ident bool
  | SelectAll bool
  | Validate "unit response"

definition run_effect :: "(string \<Rightarrow> string) \<Rightarrow> cm_state \<Rightarrow> cm_state \<Rightarrow> cm_state" where
  "run_effect toLowerCase before s =
     (if contacts s \<noteq> contacts before \<or> searchTerm s \<noteq> searchTerm before
         \<or> triggerFilter s \<noteq> triggerFilter before
         \<or> validationFilter s \<noteq> validationFilter before
      then filterContacts toLowerCase s else s)"

fun cm_step :: "(string \<Rightarrow> string) \<Rightarrow> cm_state \<Rightarrow> cm_event \<Rightarrow> cm_state" where
  "cm_step toLowerCase s (FetchAnswer data) = run_effect toLowerCase s (fetchContacts_answer data s)"
| "cm_step toLowerCase s (SetSearchTerm v) = run_effect toLowerCase s (s\<lparr>searchTerm := v\<rparr>)"
| "cm_step toLowerCase s (SetTriggerFilter v) = run_effect toLowerCase s (s\<lparr>triggerFilter := v\<rparr>)"
| "cm_step toLowerCase s (SetValidationFilter v) = run_effect toLowerCase s (s\<lparr>validationFilter := v\<rparr>)"
| "cm_step toLowerCase s ClearFilters =
     run_effect toLowerCase s (s\<lparr>searchTerm := [], triggerFilter := ''all'', validationFilter := ''all''\<rparr>)"
| "cm_step toLowerCase s (SelectContact contactId checked) = handleSelectContact contactId checked s"
| "cm_step toLowerCase s (SelectAll checked) = handleSelectAll checked s"
| "cm_step toLowerCase s (Validate data) = validateSelectedContacts data s"

text \<open>Mounting runs both effects once: the fetch is issued, the empty list is filtered.\<close>

definition cm_mounted :: "(string \<Rightarrow> string) \<Rightarrow> cm_state" where
  "cm_mounted toLowerCase = filterContacts toLowerCase (fetchContacts_request cm_init)"

definition cm_run :: "(string \<Rightarrow> string) \<Rightarrow> cm_event list \<Rightarrow> cm_state" where
  "cm_run toLowerCase evs = foldl (cm_step toLowerCase) (cm_mounted toLowerCase) evs"

section \<open>Example data\<close>

definition c_ada :: contact where
  "c_ada = \<lparr>id' = IdNum 1, first_name = Some ''Ada'', last_name = Some ''King'',
     email = Some ''ada@acme.io'', company_name = Some ''Acme'',
     company_domain = Some ''acme.io'', company_trigger = Some ''hiring'',
     company_industry = None, decision_maker_score = Some (1 / 5),
     email_validated = True, email_validation_result = Some ''valid''\<rparr>"

definition c_bob :: contact where
  "c_bob = \<lparr>id' = IdNum 2, first_name = Some ''Bob'', last_name = Some ''Lee'',
     email = Some ''bob@bolt.dev'', company_name = Some ''Bolt'',
     company_domain = Some ''bolt.dev'', company_trigger = Some ''funding'',
     company_industry = None, decision_maker_score = Some (9 / 10),
     email_validated = True, email_validation_result = Some ''valid''\<rparr>"

definition g_ada :: generated_email where
  "g_ada = \<lparr>contact_id = IdNum 1, subject = ''Hello Ada'', body = ''Hi'',
     contact_name = ''Ada King'', personalization_score = 1 / 2\<rparr>"

definition g_bob :: generated_email where
  "g_bob = \<lparr>contact_id = IdNum 2, subject = ''Hello Bob'', body = ''Hi'',
     contact_name = ''Bob Lee'', personalization_score = 1 / 2\<rparr>"

text \<open>
  EmailCampaigns after its contacts arrived, all were selected and two emails
  were generated; the same with test mode switched off; the same after a later
  answer to a fetch that no longer lists Bob.
\<close>

definition ec_ready :: ec_state where
  "ec_ready =
     generateEmails
       (Succeeded \<lparr>generated_emails = Some [g_ada, g_bob], total_generated = ''2''\<rparr> None)
       (handleSelectAll_ec True
         (fetchContacts_ec_answer (Succeeded (Some [c_ada, c_bob]) None)
           (fetchContacts_ec_request ec_init)))"

definition ec_live :: ec_state where
  "ec_live = ec_ready\<lparr>testMode := False\<rparr>"




text \<open>
  Two more contacts of Acme, both with a score that counts as 0, one of them
  unvalidated although it carries the result \<^verbatim>\<open>valid\<close>; and the companies as the
  backend lists them.
\<close>

definition c_eve :: contact where
  "c_eve = \<lparr>id' = IdNum 3, first_name = Some ''Eve'', last_name = None,
     email = Some ''eve@acme.io'', company_name = Some ''Acme'',
     company_domain = Some ''acme.io'', company_trigger = Some ''hiring'',
     company_industry = None, decision_maker_score = None,
     email_validated = False, email_validation_result = Some ''valid''\<rparr>"

definition c_dan :: contact where
  "c_dan = \<lparr>id' = IdNum 4, first_name = Some ''Dan'', last_name = None,
     email = Some ''dan@acme.io'', company_name = Some ''Acme'',
     company_domain = Some ''acme.io'', company_trigger = Some ''hiring'',
     company_industry = None, decision_maker_score = Some 0,
     email_validated = True, email_validation_result = Some ''risky''\<rparr>"

definition co_acme :: company where
  "co_acme = \<lparr>name = Some ''Acme'', domain = Some ''acme.io'', trigger_type = Some ''hiring'',
     industry = None, top_contacts = Some [c_ada]\<rparr>"

definition co_bolt :: company where
  "co_bolt = \<lparr>name = Some ''Bolt'', domain = Some ''bolt.dev'', trigger_type = Some ''funding'',
     industry = None, top_contacts = Some [c_bob]\<rparr>"

definition co_acme_all :: company where
  "co_acme_all = co_acme\<lparr>top_contacts := Some [c_eve, c_ada, c_dan]\<rparr>"

definition co_acme_eve :: company where
  "co_acme_eve = co_acme\<lparr>top_contacts := Some [c_eve]\<rparr>"

text \<open>
  ContactManagement right after the answer to its first fetch was stored, before
  the effect has run: with Ada and Bob, and with all four contacts. No search
  term is ever set in these states and the next ones, so the lowercase function
  is never applied in them.
\<close>

definition cm_fetched :: cm_state where
  "cm_fetched = fetchContacts_answer (Succeeded (Some [co_acme, co_bolt]) None)
     (cm_mounted lower_ascii)"

definition cm_ties :: cm_state where
  "cm_ties = fetchContacts_answer (Succeeded (Some [co_acme_all, co_bolt]) None)
     (cm_mounted lower_ascii)"

text \<open>
  The same with Eve and Bob, after the user has asked for the funded companies
  and the result \<^verbatim>\<open>valid\<close>, before the effect has run.
\<close>

definition cm_eve_bob :: cm_state where
  "cm_eve_bob =
     (fetchContacts_answer (Succeeded (Some [co_acme_eve, co_bolt]) None)
        (cm_mounted lower_ascii))\<lparr>triggerFilter := ''funding'', validationFilter := ''valid''\<rparr>"

text \<open>
  Reachable states: Ada ticked, then the view narrowed to the funded companies;
  Eve fetched, then the view narrowed to the result \<^verbatim>\<open>valid\<close>; Ada and Bob
  fetched, then all selected.
\<close>

definition cm_narrowed :: cm_state where
  "cm_narrowed = cm_run lower_ascii [FetchAnswer (Succeeded (Some [co_acme, co_bolt]) None),
     SelectContact (IdNum 1) True, SetTriggerFilter ''funding'']"

definition cm_unvalidated :: cm_state where
  "cm_unvalidated = cm_run lower_ascii [FetchAnswer (Succeeded (Some [co_acme_eve]) None),
     SetValidationFilter ''valid'']"

definition cm_all_selected :: cm_state where
  "cm_all_selected = cm_run lower_ascii [FetchAnswer (Succeeded (Some [co_acme, co_bolt]) None),
     SelectAll True]"

section \<open>Properties of LeadDiscovery\<close>

lemma skip_space_digit:
  "48 \<le> (of_char c :: nat) \<Longrightarrow> (of_char c :: nat) \<le> 57 \<Longrightarrow> skip_space (c # cs) = c # cs"
  by (subst skip_space.simps) (auto simp: space_len_def split: list.splits)

lemma skip_space_other:
  "space_len (map of_char v) = 0 \<Longrightarrow> skip_space v = v"
  by (subst skip_space.simps) simp

lemma to_double_small: "n < 2 ^ 53 \<Longrightarrow> to_double n = Some n"
  by (simp add: to_double_def)

lemma parseInt_500: "parseInt ''500'' = Some (Num 500)"
  by (simp add: parseInt_def skip_space_digit strip_sign_def strip_radix_def digit_of_def
      to_double_small)

lemma parseInt_minus_5: "parseInt ''-5'' = Some (Num (- 5))"
  by (simp add: parseInt_def skip_space_other space_len_def strip_sign_def strip_radix_def
      digit_of_def to_double_small)

lemma parseInt_letters: "parseInt ''abc'' = None"
  by (simp add: parseInt_def skip_space_other space_len_def strip_sign_def strip_radix_def
      digit_of_def)

lemma parseInt_0: "parseInt ''0'' = Some (Num 0)"
  by (simp add: parseInt_def skip_space_digit strip_sign_def strip_radix_def digit_of_def
      to_double_small)

text \<open>A non-numeric entry and a zero are replaced by the default.\<close>

lemma onChange_limit_default:
  "limitPerType (onChange_limit ''abc'' s) = Num 20" "limitPerType (onChange_limit ''0'' s) = Num 20"
  by (simp_all add: onChange_limit_def parseInt_letters parseInt_0)

text \<open>
  C9. With no trigger type selected, \<open>discoverLeads\<close> surfaces the validation
  error as a toast, issues no request (whatever the network would have answered),
  and leaves every other part of the state, the discovered companies among them,
  as it was.
\<close>

theorem discoverLeads_empty_triggers:
  assumes "triggerTypes s = []"
  shows "discoverLeads data s =
           s\<lparr>toasts := toasts s @ [error_toast ''Please select at least one trigger type'']\<rparr>
         \<and> requests (discoverLeads data s) = requests s
         \<and> discoveredCompanies (discoverLeads data s) = discoveredCompanies s
         \<and> isDiscovering (discoverLeads data s) = isDiscovering s
         \<and> limitPerType (discoverLeads data s) = limitPerType s
         \<and> triggerTypes (discoverLeads data s) = triggerTypes s"
  using assms by (simp add: discoverLeads_def)

theorem discoverLeads_empty_triggers_witness:
  "triggerTypes ld_none = []
   \<and> discoverLeads (Succeeded None None) ld_none =
       ld_none\<lparr>toasts := [error_toast ''Please select at least one trigger type'']\<rparr>
   \<and> requests (discoverLeads (Succeeded None None) ld_none) = []
   \<and> discoveredCompanies (discoverLeads (Succeeded None None) ld_none) = []"
proof -
  have h: "triggerTypes ld_none = []"
    by (simp add: ld_none_def ld_init_def handleTriggerChange_def)
  have t: "toasts ld_none = []" and r: "requests ld_none = []"
    and d: "discoveredCompanies ld_none = []"
    by (simp_all add: ld_none_def ld_init_def handleTriggerChange_def)
  from discoverLeads_empty_triggers [OF h, of "Succeeded None None"] h t r d
  show ?thesis by simp
qed

text \<open>
  C10. The input declares the range 1 to 100, but the handler only replaces a
  non-numeric or zero entry by 20: typing 500 stores 500, and the next discovery
  request carries \<^verbatim>\<open>limit_per_type: 500\<close>, whatever the answer is; typing -5
  stores -5.
\<close>

theorem discoverLeads_limit_500_unclamped:
  "limitPerType (onChange_limit ''500'' ld_init) = Num 500
   \<and> requests (discoverLeads data (onChange_limit ''500'' ld_init)) =
       [PostDiscover [''hiring'', ''funding'', ''outdated_tech''] (Num 500)]
   \<and> limit_max < 500
   \<and> limitPerType (onChange_limit ''-5'' ld_init) = Num (- 5)
   \<and> - 5 < limit_min"
  by (cases data)
    (simp_all add: discoverLeads_def onChange_limit_def parseInt_500 parseInt_minus_5 ld_init_def
      limit_min_def limit_max_def Let_def)

section \<open>Properties of EmailCampaigns\<close>

lemma ec_ready_eq:
  "ec_ready = \<lparr>toasts = [success_toast (Some ''Generated 2 personalized emails'')],
   requests = [PostFilterContacts, PostGenerateEmails [IdNum 1, IdNum 2] ''hiring''],
   contacts_ec = [c_ada, c_bob], selectedContacts_ec = [IdNum 1, IdNum 2],
   generatedEmails = [g_ada, g_bob], selectedTemplate = ''hiring'', isGenerating = False,
   isSending = False, testMode = True\<rparr>"
  by (simp add: ec_ready_def generateEmails_def handleSelectAll_ec_def fetchContacts_ec_answer_def
      fetchContacts_ec_request_def ec_init_def c_ada_def c_bob_def)

lemma ec_live_eq:
  "ec_live = \<lparr>toasts = [success_toast (Some ''Generated 2 personalized emails'')],
   requests = [PostFilterContacts, PostGenerateEmails [IdNum 1, IdNum 2] ''hiring''],
   contacts_ec = [c_ada, c_bob], selectedContacts_ec = [IdNum 1, IdNum 2],
   generatedEmails = [g_ada, g_bob], selectedTemplate = ''hiring'', isGenerating = False,
   isSending = False, testMode = False\<rparr>"
  by (simp add: ec_live_def ec_ready_eq)




text \<open>
  C1. A live send (test mode off) of a non-empty batch whose answer reports
  success ends with the generated batch empty and the selection empty, and has
  issued, after the send request, the request that re-fetches the contacts. (An
  empty batch issues no request, so it has no answer.)
\<close>

theorem sendEmails_live_success:
  assumes "generatedEmails s \<noteq> []" and "\<not> testMode s"
  shows "generatedEmails (sendEmails (Succeeded u message) s) = []
       \<and> selectedContacts_ec (sendEmails (Succeeded u message) s) = []
       \<and> requests (sendEmails (Succeeded u message) s) =
           requests s @ [PostSendEmails (emailsToSend (contacts_ec s) (generatedEmails s)) False,
                         PostFilterContacts]"
  using assms by (simp add: sendEmails_def fetchContacts_ec_request_def Let_def)

theorem sendEmails_live_success_witness:
  "generatedEmails ec_live \<noteq> [] \<and> \<not> testMode ec_live
   \<and> selectedContacts_ec ec_live = [IdNum 1, IdNum 2]
   \<and> generatedEmails (sendEmails (Succeeded () (Some ''sent'')) ec_live) = []
   \<and> selectedContacts_ec (sendEmails (Succeeded () (Some ''sent'')) ec_live) = []
   \<and> requests (sendEmails (Succeeded () (Some ''sent'')) ec_live) =
       [PostFilterContacts, PostGenerateEmails [IdNum 1, IdNum 2] ''hiring'',
        PostSendEmails (emailsToSend [c_ada, c_bob] [g_ada, g_bob]) False,
        PostFilterContacts]"
proof -
  have h1: "generatedEmails ec_live \<noteq> []" and h2: "\<not> testMode ec_live"
    by (simp_all add: ec_live_eq)
  from sendEmails_live_success [OF h1 h2, of "()" "Some ''sent''"] h1 h2
  show ?thesis by (simp add: ec_live_eq)
qed

text \<open>
  C2. A test-mode send of a non-empty batch whose answer reports success changes
  nothing but the toasts, the request log (the send request only, no re-fetch)
  and the busy flag: the generated batch keeps its entries, and the selection
  and the contacts are as before.
\<close>

theorem sendEmails_test_success:
  assumes "generatedEmails s \<noteq> []" and "testMode s"
  shows "sendEmails (Succeeded u message) s =
           s\<lparr>toasts := toasts s @ [success_toast (Some ''Test completed successfully'')],
             requests := requests s @
               [PostSendEmails (emailsToSend (contacts_ec s) (generatedEmails s)) True],
             isSending := False\<rparr>
       \<and> generatedEmails (sendEmails (Succeeded u message) s) = generatedEmails s
       \<and> length (generatedEmails (sendEmails (Succeeded u message) s)) = length (generatedEmails s)
       \<and> selectedContacts_ec (sendEmails (Succeeded u message) s) = selectedContacts_ec s
       \<and> contacts_ec (sendEmails (Succeeded u message) s) = contacts_ec s"
  using assms by (simp add: sendEmails_def Let_def)

theorem sendEmails_test_success_witness:
  "generatedEmails ec_ready \<noteq> [] \<and> testMode ec_ready
   \<and> generatedEmails (sendEmails (Succeeded () None) ec_ready) = [g_ada, g_bob]
   \<and> selectedContacts_ec (sendEmails (Succeeded () None) ec_ready) = [IdNum 1, IdNum 2]
   \<and> contacts_ec (sendEmails (Succeeded () None) ec_ready) = [c_ada, c_bob]"
proof -
  have h1: "generatedEmails ec_ready \<noteq> []" and h2: "testMode ec_ready"
    by (simp_all add: ec_ready_eq)
  from sendEmails_test_success [OF h1 h2, of "()" None] h1 h2
  show ?thesis by (simp add: ec_ready_eq)
qed




section \<open>Properties of ContactManagement\<close>

subsection \<open>The sort\<close>

lemma insert_by_insort:
  "insert_by compareScore x xs = insort_key (\<lambda>c. - score_or_0 c) x xs"
  by (induction xs) (simp_all add: compareScore_def)

lemma array_sort_sort_key:
  "array_sort compareScore xs = sort_key (\<lambda>c. - score_or_0 c) xs"
  by (induction xs) (simp_all add: insert_by_insort)

lemma sorted_desc_array_sort:
  "sorted_wrt (\<lambda>a b. score_or_0 b \<le> score_or_0 a) (array_sort compareScore xs)"
proof -
  have "sorted (map (\<lambda>c. - score_or_0 c) (sort_key (\<lambda>c. - score_or_0 c) xs))"
    by (rule sorted_sort_key)
  then show ?thesis
    by (simp add: array_sort_sort_key sorted_wrt_map)
qed

lemma stable_array_sort:
  "filter (\<lambda>c. score_or_0 c = k) (array_sort compareScore xs) = filter (\<lambda>c. score_or_0 c = k) xs"
proof -
  have "filter (\<lambda>c. - score_or_0 c = - k) (sort_key (\<lambda>c. - score_or_0 c) xs) =
        filter (\<lambda>c. - score_or_0 c = - k) xs"
    by (rule sort_key_stable)
  then show ?thesis
    by (simp add: array_sort_sort_key)
qed

lemma mset_array_sort: "mset (array_sort compareScore xs) = mset xs"
  by (simp add: array_sort_sort_key)

subsection \<open>What filterContacts computes\<close>

lemma visible_filterContacts:
  "visible (filterContacts toLowerCase s) = array_sort compareScore (filter (passes toLowerCase s) (heap s (contacts s)))"
  unfolding visible_def filterContacts_def passes_def passes_search_def passes_trigger_def
    passes_validation_def
  by (simp add: Let_def array_filter_def new_array_def split_def conj_assoc)

text \<open>
  With a criterion active the sorted array is a new one, and the array held in
  \<open>contacts\<close> is left as it was; with none active it is the array held in
  \<open>contacts\<close> that is sorted.
\<close>

lemma filterContacts_keeps_contacts_when_filtering:
  assumes "contacts s < fresh s"
    and "searchTerm s \<noteq> [] \<or> triggerFilter s \<noteq> ''all'' \<or> validationFilter s \<noteq> ''all''"
  shows "heap (filterContacts toLowerCase s) (contacts s) = heap s (contacts s)"
    and "contacts (filterContacts toLowerCase s) = contacts s"
  using assms
  by (auto simp: filterContacts_def Let_def array_filter_def new_array_def split_def)

lemma filterContacts_sorts_contacts_when_not_filtering:
  assumes "searchTerm s = []" and "triggerFilter s = ''all''" and "validationFilter s = ''all''"
  shows "heap (filterContacts toLowerCase s) (contacts s) = array_sort compareScore (heap s (contacts s))"
  using assms by (simp add: filterContacts_def Let_def)

subsection \<open>The example states, evaluated\<close>

lemma contact_fields:
  "company_trigger c_ada = Some ''hiring''" "company_trigger c_bob = Some ''funding''"
  "id' c_ada = IdNum 1" "id' c_bob = IdNum 2"
  "score_or_0 c_ada = 1 / 5" "score_or_0 c_bob = 9 / 10"
  "score_or_0 c_eve = 0" "score_or_0 c_dan = 0"
  "email_validated c_ada" "email_validated c_bob" "\<not> email_validated c_eve"
  "email_validation_result c_ada = Some ''valid''" "email_validation_result c_bob = Some ''valid''"
  "email_validation_result c_eve = Some ''valid''"
  by (simp_all add: c_ada_def c_bob_def c_eve_def c_dan_def score_or_0_def)

lemma compare_ada_bob: "compareScore c_ada c_bob = 7 / 10"
  by (simp add: compareScore_def contact_fields)

lemma flatten_ada_bob: "flatten [co_acme, co_bolt] = [c_ada, c_bob]"
  by (simp add: flatten_def co_acme_def co_bolt_def c_ada_def c_bob_def)

lemma flatten_all: "flatten [co_acme_all, co_bolt] = [c_eve, c_ada, c_dan, c_bob]"
  by (simp add: flatten_def co_acme_all_def co_acme_def co_bolt_def c_ada_def c_bob_def
      c_eve_def c_dan_def)

lemma flatten_eve: "flatten [co_acme_eve] = [c_eve]"
  by (simp add: flatten_def co_acme_eve_def co_acme_def c_eve_def)

lemma flatten_eve_bob: "flatten [co_acme_eve, co_bolt] = [c_eve, c_bob]"
  by (simp add: flatten_def co_acme_eve_def co_acme_def co_bolt_def c_eve_def c_bob_def)

lemma cm_mounted_eq:
  "cm_mounted toLowerCase = \<lparr>toasts = [], requests = [GetCompanies], heap = (\<lambda>r. []), fresh = 2,
     contacts = 0, filteredContacts = 0, selectedContacts = [], loading = True,
     validating = False, searchTerm = [], triggerFilter = ''all'', validationFilter = ''all''\<rparr>"
  by (simp add: cm_mounted_def filterContacts_def fetchContacts_request_def cm_init_def Let_def
      fun_upd_idem_iff)

lemma cm_fetched_eq:
  "cm_fetched = \<lparr>toasts = [], requests = [GetCompanies],
     heap = (\<lambda>r. [])(2 := [c_ada, c_bob]), fresh = 3, contacts = 2, filteredContacts = 0,
     selectedContacts = [], loading = False, validating = False, searchTerm = [],
     triggerFilter = ''all'', validationFilter = ''all''\<rparr>"
  by (simp add: cm_fetched_def cm_mounted_eq fetchContacts_answer_def new_array_def flatten_ada_bob)

lemma cm_ties_eq:
  "cm_ties = \<lparr>toasts = [], requests = [GetCompanies],
     heap = (\<lambda>r. [])(2 := [c_eve, c_ada, c_dan, c_bob]), fresh = 3, contacts = 2,
     filteredContacts = 0, selectedContacts = [], loading = False, validating = False,
     searchTerm = [], triggerFilter = ''all'', validationFilter = ''all''\<rparr>"
  by (simp add: cm_ties_def cm_mounted_eq fetchContacts_answer_def new_array_def flatten_all)

lemma cm_eve_bob_eq:
  "cm_eve_bob = \<lparr>toasts = [], requests = [GetCompanies],
     heap = (\<lambda>r. [])(2 := [c_eve, c_bob]), fresh = 3, contacts = 2, filteredContacts = 0,
     selectedContacts = [], loading = False, validating = False, searchTerm = [],
     triggerFilter = ''funding'', validationFilter = ''valid''\<rparr>"
  by (simp add: cm_eve_bob_def cm_mounted_eq fetchContacts_answer_def new_array_def
      flatten_eve_bob)

lemma cm_narrowed_eq:
  "cm_narrowed = \<lparr>toasts = [], requests = [GetCompanies],
     heap = (\<lambda>r. [])(2 := [c_bob, c_ada], 3 := [c_bob]), fresh = 4, contacts = 2,
     filteredContacts = 3, selectedContacts = [IdNum 1], loading = False, validating = False,
     searchTerm = [], triggerFilter = ''funding'', validationFilter = ''all''\<rparr>"
  by (simp add: cm_narrowed_def cm_run_def cm_mounted_eq run_effect_def fetchContacts_answer_def
      new_array_def flatten_ada_bob filterContacts_def Let_def compare_ada_bob
      handleSelectContact_def array_filter_def contact_fields)

lemma cm_unvalidated_eq:
  "cm_unvalidated = \<lparr>toasts = [], requests = [GetCompanies],
     heap = (\<lambda>r. [])(2 := [c_eve], 3 := [c_eve]), fresh = 4, contacts = 2,
     filteredContacts = 3, selectedContacts = [], loading = False, validating = False,
     searchTerm = [], triggerFilter = ''all'', validationFilter = ''valid''\<rparr>"
  by (simp add: cm_unvalidated_def cm_run_def cm_mounted_eq run_effect_def
      fetchContacts_answer_def new_array_def flatten_eve filterContacts_def Let_def
      array_filter_def contact_fields)

lemma cm_all_selected_eq:
  "cm_all_selected = \<lparr>toasts = [], requests = [GetCompanies],
     heap = (\<lambda>r. [])(2 := [c_bob, c_ada]), fresh = 3, contacts = 2,
     filteredContacts = 2, selectedContacts = [IdNum 2, IdNum 1], loading = False,
     validating = False, searchTerm = [], triggerFilter = ''all'', validationFilter = ''all''\<rparr>"
  by (simp add: cm_all_selected_def cm_run_def cm_mounted_eq run_effect_def
      fetchContacts_answer_def new_array_def flatten_ada_bob filterContacts_def Let_def
      compare_ada_bob handleSelectAll_def contact_fields)

subsection \<open>Claims\<close>

text \<open>
  C4. The claim is what a filter should do, and \<open>filterContacts\<close> does it
  whenever a criterion is active (\<open>filterContacts_keeps_contacts_when_filtering\<close>).
  With no criterion active it breaks it: \<open>filtered\<close> is then the array held in
  \<open>contacts\<close>, and the sort reorders that array. Here the contacts arrive as
  Ada (0.2), Bob (0.9), and after the call the same array reads Bob, Ada.
\<close>

theorem filterContacts_sorts_contacts_in_place:
  "searchTerm cm_fetched = [] \<and> triggerFilter cm_fetched = ''all''
   \<and> validationFilter cm_fetched = ''all''
   \<and> heap cm_fetched (contacts cm_fetched) = [c_ada, c_bob]
   \<and> contacts (filterContacts lower_ascii cm_fetched) = contacts cm_fetched
   \<and> heap (filterContacts lower_ascii cm_fetched) (contacts cm_fetched) = [c_bob, c_ada]"
  by (simp add: cm_fetched_eq filterContacts_def Let_def compare_ada_bob)

text \<open>
  C5. Whatever the contacts and the criteria, the list on display after
  \<open>filterContacts\<close> is in descending order of score, a missing score counting
  as 0; for every score \<open>k\<close>, the contacts of score \<open>k\<close> appear in it in the
  order in which the input lists those that pass the criteria; and it holds
  exactly the input contacts that pass the criteria.
\<close>

theorem filterContacts_sorted_stable:
  "sorted_wrt (\<lambda>a b. score_or_0 b \<le> score_or_0 a) (visible (filterContacts toLowerCase s))
   \<and> filter (\<lambda>c. score_or_0 c = k) (visible (filterContacts toLowerCase s)) =
       filter (\<lambda>c. score_or_0 c = k) (filter (passes toLowerCase s) (heap s (contacts s)))
   \<and> mset (visible (filterContacts toLowerCase s)) = mset (filter (passes toLowerCase s) (heap s (contacts s)))"
  by (simp only: visible_filterContacts sorted_desc_array_sort stable_array_sort mset_array_sort
      simp_thms)

theorem filterContacts_sorted_stable_witness:
  "heap cm_ties (contacts cm_ties) = [c_eve, c_ada, c_dan, c_bob]
   \<and> sorted_wrt (\<lambda>a b. score_or_0 b \<le> score_or_0 a) (visible (filterContacts lower_ascii cm_ties))
   \<and> filter (\<lambda>c. score_or_0 c = 0) (visible (filterContacts lower_ascii cm_ties)) = [c_eve, c_dan]
   \<and> filter (\<lambda>c. score_or_0 c = 9 / 10) (visible (filterContacts lower_ascii cm_ties)) = [c_bob]"
proof -
  have p: "passes lower_ascii cm_ties c" for c
    by (simp add: passes_def passes_search_def passes_trigger_def passes_validation_def
        cm_ties_eq)
  have h: "heap cm_ties (contacts cm_ties) = [c_eve, c_ada, c_dan, c_bob]"
    by (simp add: cm_ties_eq)
  from filterContacts_sorted_stable [of lower_ascii cm_ties 0]
    filterContacts_sorted_stable [of lower_ascii cm_ties "9 / 10"] h
  show ?thesis by (simp add: p contact_fields)
qed

text \<open>
  C6, as stated, fails: Eve carries the result \<^verbatim>\<open>valid\<close> with
  \<^verbatim>\<open>email_validated\<close> false, and the view narrowed to \<^verbatim>\<open>valid\<close> shows her.
\<close>

theorem filterContacts_valid_keeps_unvalidated:
  "validationFilter cm_unvalidated = ''valid''
   \<and> visible cm_unvalidated = [c_eve]
   \<and> email_validation_result c_eve = Some ''valid''
   \<and> \<not> email_validated c_eve
   \<and> \<not> list_all email_validated (visible cm_unvalidated)"
  by (simp add: cm_unvalidated_eq visible_def contact_fields)

text \<open>
  C6, amended. Under a validation mode \<^verbatim>\<open>valid\<close>, \<^verbatim>\<open>invalid\<close> or \<^verbatim>\<open>risky\<close>,
  \<open>filterContacts\<close> keeps exactly the contacts that pass the search and trigger
  criteria and whose \<^verbatim>\<open>email_validation_result\<close> is that value;
  \<^verbatim>\<open>email_validated\<close> is not consulted, so the contacts on display are all
  validated if and only if every input contact that passes the search and
  trigger criteria and carries that result is validated.
\<close>

theorem filterContacts_result_mode:
  assumes "validationFilter s \<in> {''valid'', ''invalid'', ''risky''}"
  shows "mset (visible (filterContacts toLowerCase s)) =
           mset (filter (\<lambda>c. passes_search toLowerCase s c \<and> passes_trigger s c
                            \<and> email_validation_result c = Some (validationFilter s))
                        (heap s (contacts s)))
       \<and> (list_all email_validated (visible (filterContacts toLowerCase s))
           \<longleftrightarrow> list_all (\<lambda>c. passes_search toLowerCase s c \<and> passes_trigger s c
                              \<and> email_validation_result c = Some (validationFilter s)
                            \<longrightarrow> email_validated c)
                 (heap s (contacts s)))"
proof -
  let ?keep = "\<lambda>c. passes_search toLowerCase s c \<and> passes_trigger s c
                   \<and> email_validation_result c = Some (validationFilter s)"
  have pv: "passes_validation s c = (email_validation_result c = Some (validationFilter s))" for c
    using assms by (auto simp: passes_validation_def)
  have m: "mset (visible (filterContacts toLowerCase s)) = mset (filter ?keep (heap s (contacts s)))"
    by (simp add: visible_filterContacts mset_array_sort passes_def pv)
  then have "set (visible (filterContacts toLowerCase s)) = set (filter ?keep (heap s (contacts s)))"
    by (rule mset_eq_setD)
  then have "list_all email_validated (visible (filterContacts toLowerCase s))
      \<longleftrightarrow> list_all (\<lambda>c. ?keep c \<longrightarrow> email_validated c) (heap s (contacts s))"
    by (auto simp: list_all_iff)
  with m show ?thesis by blast
qed

theorem filterContacts_result_mode_witness:
  "validationFilter cm_eve_bob \<in> {''valid'', ''invalid'', ''risky''}
   \<and> heap cm_eve_bob (contacts cm_eve_bob) = [c_eve, c_bob]
   \<and> email_validation_result c_eve = Some ''valid'' \<and> \<not> email_validated c_eve
   \<and> \<not> passes_trigger cm_eve_bob c_eve
   \<and> mset (visible (filterContacts lower_ascii cm_eve_bob)) = {#c_bob#}
   \<and> list_all email_validated (visible (filterContacts lower_ascii cm_eve_bob))"
proof -
  have h: "validationFilter cm_eve_bob \<in> {''valid'', ''invalid'', ''risky''}"
    by (simp add: cm_eve_bob_eq)
  have c: "heap cm_eve_bob (contacts cm_eve_bob) = [c_eve, c_bob]"
    by (simp add: cm_eve_bob_eq)
  have e: "company_trigger c_eve = Some ''hiring''"
    by (simp add: c_eve_def)
  have p: "\<not> passes_trigger cm_eve_bob c_eve" "passes_trigger cm_eve_bob c_bob"
    "passes_search lower_ascii cm_eve_bob c_bob"
    by (simp_all add: passes_trigger_def passes_search_def cm_eve_bob_eq contact_fields e)
  have v: "validationFilter cm_eve_bob = ''valid''"
    by (simp add: cm_eve_bob_eq)
  from filterContacts_result_mode [OF h, where toLowerCase = lower_ascii] h c p
  show ?thesis
    by (simp add: v contact_fields)
qed

text \<open>
  C7, as stated, fails: with Ada ticked and the view then narrowed to Bob alone,
  the sizes agree, the select-all box shows checked, and the selection is not
  the view.
\<close>

theorem select_all_checked_other_selection:
  "select_all_checked cm_narrowed
   \<and> selectedContacts cm_narrowed = [IdNum 1]
   \<and> visibleIds cm_narrowed = [IdNum 2]
   \<and> set (selectedContacts cm_narrowed) \<noteq> set (visibleIds cm_narrowed)"
  by (simp add: cm_narrowed_eq select_all_checked_def visibleIds_def visible_def contact_fields)

text \<open>
  C7, amended. In every state (reachable or not), when the select-all box shows
  checked and the selection holds no id twice and only ids of the view, the
  selection and the view have the same set of ids.
\<close>

theorem select_all_checked_sound:
  assumes "select_all_checked s"
    and "distinct (selectedContacts s)"
    and "set (selectedContacts s) \<subseteq> set (visibleIds s)"
  shows "set (selectedContacts s) = set (visibleIds s)"
proof -
  have "card (set (visibleIds s)) \<le> length (visibleIds s)"
    by (rule card_length)
  also have "\<dots> = length (selectedContacts s)"
    using assms(1) by (simp add: select_all_checked_def visibleIds_def visible_def)
  also have "\<dots> = card (set (selectedContacts s))"
    using assms(2) by (simp add: distinct_card)
  finally show ?thesis
    using assms(3) by (simp add: card_seteq)
qed

theorem select_all_checked_sound_witness:
  "select_all_checked cm_all_selected
   \<and> distinct (selectedContacts cm_all_selected)
   \<and> set (selectedContacts cm_all_selected) \<subseteq> set (visibleIds cm_all_selected)
   \<and> set (selectedContacts cm_all_selected) = set (visibleIds cm_all_selected)
   \<and> selectedContacts cm_all_selected = [IdNum 2, IdNum 1]"
proof -
  have h1: "select_all_checked cm_all_selected"
    by (simp add: cm_all_selected_eq select_all_checked_def)
  have h2: "distinct (selectedContacts cm_all_selected)"
    by (simp add: cm_all_selected_eq)
  have h3: "set (selectedContacts cm_all_selected) \<subseteq> set (visibleIds cm_all_selected)"
    by (simp add: cm_all_selected_eq visibleIds_def visible_def contact_fields)
  from select_all_checked_sound [OF h1 h2 h3] h1 h2 h3
  show ?thesis by (simp add: cm_all_selected_eq)
qed

text \<open>
  C8. A validation of a non-empty selection whose answer reports success ends
  with the selection empty and has issued, after the validation request, the
  request that re-fetches the companies, whose answer replaces the whole contact
  list. When the answer reports failure, or none arrives, the selection is as
  before, the validation request is the only one issued, and an error toast is
  shown.
\<close>

theorem validateSelectedContacts_outcome:
  assumes "selectedContacts s \<noteq> []"
  shows "selectedContacts (validateSelectedContacts (Succeeded u message) s) = []
       \<and> requests (validateSelectedContacts (Succeeded u message) s) =
           requests s @ [PostValidateContacts (selectedContacts s), GetCompanies]
       \<and> heap (fetchContacts_answer (Succeeded (Some companies) m)
                 (validateSelectedContacts (Succeeded u message) s))
              (contacts (fetchContacts_answer (Succeeded (Some companies) m)
                 (validateSelectedContacts (Succeeded u message) s))) =
           flatten companies
       \<and> (data = Failed err \<or> data = Threw \<longrightarrow>
            selectedContacts (validateSelectedContacts data s) = selectedContacts s
          \<and> requests (validateSelectedContacts data s) =
              requests s @ [PostValidateContacts (selectedContacts s)]
          \<and> (\<exists>d. toasts (validateSelectedContacts data s) = toasts s @ [error_toast d]))"
  using assms
  by (auto simp: validateSelectedContacts_def fetchContacts_request_def fetchContacts_answer_def
      new_array_def Let_def)

theorem validateSelectedContacts_outcome_witness:
  "selectedContacts cm_all_selected = [IdNum 2, IdNum 1]
   \<and> selectedContacts (validateSelectedContacts (Succeeded () (Some ''done'')) cm_all_selected) = []
   \<and> requests (validateSelectedContacts (Succeeded () (Some ''done'')) cm_all_selected) =
       [GetCompanies, PostValidateContacts [IdNum 2, IdNum 1], GetCompanies]
   \<and> selectedContacts (validateSelectedContacts (Failed None) cm_all_selected) =
       [IdNum 2, IdNum 1]
   \<and> requests (validateSelectedContacts (Failed None) cm_all_selected) =
       [GetCompanies, PostValidateContacts [IdNum 2, IdNum 1]]"
proof -
  have h: "selectedContacts cm_all_selected \<noteq> []"
    by (simp add: cm_all_selected_eq)
  have d: "(Failed None :: unit response) = Failed None \<or> (Failed None :: unit response) = Threw"
    by simp
  from validateSelectedContacts_outcome [OF h, of "()" "Some ''done''" "[]" None "Failed None" None] d
  show ?thesis by (simp add: cm_all_selected_eq)
qed

end
